theory Spec2Isabelle
  imports Complex_Main "HOL-Library.Multiset"
begin

section \<open>The table\<close>

text \<open>
  The script \<^verbatim>\<open>gdp_enrollment_scatter_html.py\<close> works on one pandas DataFrame.
  A cell as \<^verbatim>\<open>pd.read_csv\<close> delivers it is a missing value (NaN), a number, a
  boolean or a piece of text that is not a number. Numbers are modelled as \<^typ>\<open>real\<close>:
  the arithmetic of the script is read as exact arithmetic, so rounding and the
  infinities of float64 are outside the model.
\<close>

datatype cell = CNull | CNum real | CBool bool | CStr string

text \<open>
  The parsed CSV: its header and its records. A record gives a cell for every column
  name; only the names of the header are ever read.
\<close>

record csv_table =
  csv_columns :: "string list"
  csv_records :: "(string \<Rightarrow> cell) list"

text \<open>
  A row of the table that \<^verbatim>\<open>load_and_prepare\<close> returns, with the columns the rest
  of the script reads. \<open>None\<close> is pandas' missing value (NaN or \<^verbatim>\<open><NA>\<close>).
  The \<^verbatim>\<open>country\<close> column is never coerced, so it keeps the cell of the CSV.
  The columns \<^verbatim>\<open>country\<close> and \<^verbatim>\<open>both_increase\<close> may be absent from the table as a
  whole, which the two flags of the frame record; the other five columns always exist
  after loading.
\<close>

record row =
  country :: cell
  year :: "int option"
  gdp_numeric :: "real option"
  enrollment_numeric :: "real option"
  gdp_pct_change :: "real option"
  enrollment_pct_change :: "real option"
  both_increase :: bool

record frame =
  rows :: "row list"
  has_country :: bool
  has_both_increase :: bool

datatype error =
    FileNotFoundError string
  | KeyError string
  | TypeError string
  | ValueError string
  | ZeroDivisionError

section \<open>Configuration\<close>

definition MERGED_CSV :: string where
  "MERGED_CSV = ''merged_clean.csv''"

definition MAX_PANELS :: int where
  "MAX_PANELS = 6"

definition SIZE_SCALE :: real where
  "SIZE_SCALE = 0.00002"

text \<open>
  \<^verbatim>\<open>YEARS\<close> is \<^verbatim>\<open>None\<close> in the script as shipped and is meant to be edited; the
  functions below take it as an argument of type \<^typ>\<open>int list option\<close>.
\<close>

section \<open>Pieces of pandas and Python\<close>

text \<open>\<^verbatim>\<open>Series.dropna()\<close>: the values that are not missing, in order.\<close>

fun dropna :: "'a option list \<Rightarrow> 'a list" where
  "dropna [] = []"
| "dropna (None # xs) = dropna xs"
| "dropna (Some v # xs) = v # dropna xs"

text \<open>\<^verbatim>\<open>Series.unique()\<close>: each value once, in order of first appearance.\<close>

fun unique :: "'a list \<Rightarrow> 'a list" where
  "unique [] = []"
| "unique (x # xs) = x # filter (\<lambda>y. y \<noteq> x) (unique xs)"

text \<open>
  The slice \<^verbatim>\<open>xs[start:]\<close> of Python: a negative start counts from the end, and a
  start outside the list is clamped to it.
\<close>

definition py_slice_from :: "int \<Rightarrow> 'a list \<Rightarrow> 'a list" where
  "py_slice_from start xs =
     (let n = int (length xs);
          s = (if start < 0 then max 0 (start + n) else min start n)
      in drop (nat s) xs)"

text \<open>The truth value of \<^verbatim>\<open>YEARS\<close> in \<^verbatim>\<open>if YEARS:\<close>: \<^verbatim>\<open>None\<close> and \<^verbatim>\<open>[]\<close> are false.\<close>

fun truthy :: "'a list option \<Rightarrow> bool" where
  "truthy None = False"
| "truthy (Some ys) = (ys \<noteq> [])"

section \<open>The year selector\<close>

definition NO_YEARS_MSG :: string where
  "NO_YEARS_MSG = ''No requested YEARS are present in the data.''"

definition choose_years :: "frame \<Rightarrow> int list option \<Rightarrow> error + int list" where
  "choose_years df YEARS =
     (let yrs = sort (unique (dropna (map year (rows df)))) in
      if truthy YEARS then
        (let use = filter (\<lambda>y. y \<in> set yrs) (case YEARS of Some ys \<Rightarrow> ys | None \<Rightarrow> [])
         in if use = [] then Inl (ValueError NO_YEARS_MSG) else Inr use)
      else Inr (py_slice_from (- MAX_PANELS) (sort yrs)))"

text \<open>
  The years that occur in the table: the non-null values of its \<^verbatim>\<open>year\<close> column.
\<close>

definition present_years :: "frame \<Rightarrow> int set" where
  "present_years df = {y. \<exists>r \<in> set (rows df). year r = Some y}"


section \<open>The loader\<close>

text \<open>
  The file system is a function from paths to parsed CSV files; \<open>None\<close> is a path
  that does not exist (\<^verbatim>\<open>os.path.exists\<close>). A file that exists is taken to be one
  that \<^verbatim>\<open>pd.read_csv\<close> parses.
\<close>

type_synonym files = "string \<Rightarrow> csv_table option"

definition EXPECTED_COLUMNS :: "string list" where
  "EXPECTED_COLUMNS =
     [''country'', ''year'', ''gdp'', ''enrollment'', ''gdp_pct_change'',
      ''enrollment_pct_change'', ''both_increase'']"

definition warning :: "string \<Rightarrow> string" where
  "warning c = ''Warning: column '' @ [CHR 0x27] @ c @ [CHR 0x27] @ '' not present in merged file.''"

text \<open>\<^verbatim>\<open>pd.to_numeric(..., errors="coerce")\<close> on one cell: what is not a number is null.\<close>

fun to_numeric :: "cell \<Rightarrow> real option" where
  "to_numeric CNull = None"
| "to_numeric (CNum v) = Some v"
| "to_numeric (CBool b) = Some (if b then 1 else 0)"
| "to_numeric (CStr s) = None"

text \<open>
  \<^verbatim>\<open>.astype("Int64")\<close> on a numeric column: nulls stay null, whole numbers become
  integers, and a number with a fractional part makes pandas raise a \<^verbatim>\<open>TypeError\<close>.
\<close>

definition is_whole :: "real \<Rightarrow> bool" where
  "is_whole v = (of_int \<lfloor>v\<rfloor> = v)"

definition astype_Int64 :: "real option list \<Rightarrow> error + int option list" where
  "astype_Int64 vs =
     (if list_all is_whole (dropna vs) then Inr (map (map_option floor) vs)
      else Inl (TypeError ''cannot safely cast non-equivalent float64 to int64''))"

text \<open>\<^verbatim>\<open>.astype(bool)\<close> on one cell: Python truth, under which NaN is true.\<close>

fun astype_bool :: "cell \<Rightarrow> bool" where
  "astype_bool CNull = True"
| "astype_bool (CNum v) = (v \<noteq> 0)"
| "astype_bool (CBool b) = b"
| "astype_bool (CStr s) = (s \<noteq> [])"

text \<open>
  \<^verbatim>\<open>pd.to_numeric(df.get(c, pd.Series()), errors="coerce")\<close>, read at one record: an
  absent column gives the empty series, which assignment to the table fills with nulls.
\<close>

definition get_numeric :: "csv_table \<Rightarrow> string \<Rightarrow> (string \<Rightarrow> cell) \<Rightarrow> real option" where
  "get_numeric t c r = (if c \<in> set (csv_columns t) then to_numeric (r c) else None)"

definition prepare_row :: "csv_table \<Rightarrow> (string \<Rightarrow> cell) \<times> int option \<Rightarrow> row" where
  "prepare_row t = (\<lambda>(r, y).
     \<lparr> country = (if ''country'' \<in> set (csv_columns t) then r ''country'' else CNull),
       year = y,
       gdp_numeric = get_numeric t ''gdp'' r,
       enrollment_numeric = get_numeric t ''enrollment'' r,
       gdp_pct_change = get_numeric t ''gdp_pct_change'' r,
       enrollment_pct_change = get_numeric t ''enrollment_pct_change'' r,
       both_increase =
         (if ''both_increase'' \<in> set (csv_columns t) then astype_bool (r ''both_increase'')
          else False) \<rparr>)"

text \<open>
  The loader returns what it printed together with its result. \<^verbatim>\<open>df["year"]\<close> is a
  plain subscript: on a table without that column it raises \<^verbatim>\<open>KeyError\<close>, after the
  warnings have been printed.
\<close>

definition load_and_prepare :: "files \<Rightarrow> string \<Rightarrow> string list \<times> (error + frame)" where
  "load_and_prepare fs path =
     (case fs path of
        None \<Rightarrow> ([], Inl (FileNotFoundError (path @ '' not found'')))
      | Some t \<Rightarrow>
          (let warns = map warning (filter (\<lambda>c. c \<notin> set (csv_columns t)) EXPECTED_COLUMNS) in
           if ''year'' \<notin> set (csv_columns t) then (warns, Inl (KeyError ''year''))
           else
             (case astype_Int64 (map (\<lambda>r. to_numeric (r ''year'')) (csv_records t)) of
                Inl e \<Rightarrow> (warns, Inl e)
              | Inr ys \<Rightarrow>
                  (warns,
                   Inr \<lparr> rows = map (prepare_row t) (zip (csv_records t) ys),
                         has_country = (''country'' \<in> set (csv_columns t)),
                         has_both_increase = (''both_increase'' \<in> set (csv_columns t)) \<rparr>))))"

section \<open>The static renderer\<close>

text \<open>
  The drawing calls are modelled by what they are given: a panel records its title,
  whether its axes are switched off, the points handed to the scatter plot (one for
  each row of the year, with the coordinates and the size of that row) and the texts
  written into it. The reference lines and axis labels are constants of the
  script and are left out.
\<close>

record point =
  pt_x :: "real option"
  pt_y :: "real option"
  pt_hue :: bool
  pt_size :: real

record annotation =
  ann_x :: real
  ann_y :: real
  ann_text :: cell

record panel =
  title :: string
  axis_off :: bool
  points :: "point list"
  legend :: bool
  annotations :: "annotation list"

record figure =
  fig_rows :: nat
  fig_cols :: nat
  panels :: "panel list"
  hidden_cells :: "nat list"

text \<open>\<^verbatim>\<open>str(year)\<close>: the decimal digits of an integer.\<close>

fun str_nat :: "nat \<Rightarrow> string" where
  "str_nat n =
     (if n < 10 then [char_of (48 + n)]
      else str_nat (n div 10) @ [char_of (48 + n mod 10)])"

declare str_nat.simps [simp del]

definition str_int :: "int \<Rightarrow> string" where
  "str_int i = (if i < 0 then CHR ''-'' # str_nat (nat (- i)) else str_nat (nat i))"

text \<open>\<^verbatim>\<open>fillna(v)\<close> and \<^verbatim>\<open>clip(lower, upper)\<close> at one value.\<close>

fun fillna :: "'a \<Rightarrow> 'a option \<Rightarrow> 'a" where
  "fillna d None = d"
| "fillna d (Some v) = v"

definition clip :: "real \<Rightarrow> real \<Rightarrow> real \<Rightarrow> real" where
  "clip lower upper v = min (max v lower) upper"

text \<open>The rows of one year, \<^verbatim>\<open>df[df["year"] == year]\<close>; a null year matches none.\<close>

definition rows_of_year :: "frame \<Rightarrow> int \<Rightarrow> row list" where
  "rows_of_year df y = filter (\<lambda>r. year r = Some y) (rows df)"

definition static_size :: "row \<Rightarrow> real" where
  "static_size r = clip 10 400 (\<bar>fillna 0 (gdp_numeric r)\<bar> * SIZE_SCALE)"

definition dist_origin :: "row \<Rightarrow> real" where
  "dist_origin r = sqrt ((fillna 0 (gdp_pct_change r))\<^sup>2 + (fillna 0 (enrollment_pct_change r))\<^sup>2)"

text \<open>
  \<^verbatim>\<open>sort_values(key, ascending=False)\<close>: pandas reverses the rows, sorts them
  ascending and reverses the result. Rows with equal keys keep their order here; the
  default sorting algorithm of pandas does not promise that for long tables.
\<close>

definition sort_values_desc :: "('a \<Rightarrow> real) \<Rightarrow> 'a list \<Rightarrow> 'a list" where
  "sort_values_desc f xs = rev (sort_key f (rev xs))"

definition top_rows :: "row list \<Rightarrow> row list" where
  "top_rows sub = take 5 (sort_values_desc dist_origin sub)"

text \<open>
  The loop over the top rows: a row with a null coordinate is passed over, any other
  gets a text at its point, \<^verbatim>\<open>str(row.get("country", ""))\<close>.
\<close>

fun annotate :: "bool \<Rightarrow> row list \<Rightarrow> annotation list" where
  "annotate hc [] = []"
| "annotate hc (r # rs) =
     (case gdp_pct_change r of
        None \<Rightarrow> annotate hc rs
      | Some x \<Rightarrow>
          (case enrollment_pct_change r of
             None \<Rightarrow> annotate hc rs
           | Some y \<Rightarrow>
               \<lparr> ann_x = x, ann_y = y, ann_text = (if hc then country r else CStr []) \<rparr>
                 # annotate hc rs))"

definition scatter_point :: "row \<Rightarrow> point" where
  "scatter_point r =
     \<lparr> pt_x = gdp_pct_change r, pt_y = enrollment_pct_change r,
       pt_hue = both_increase r, pt_size = static_size r \<rparr>"

definition no_data_panel :: "int \<Rightarrow> panel" where
  "no_data_panel y =
     \<lparr> title = str_int y @ '' (no data)'', axis_off = True, points = [],
       legend = False, annotations = [] \<rparr>"

text \<open>
  The scatter plot leaves out the rows that lack a coordinate and draws the others,
  but \<^verbatim>\<open>s=sizes\<close> still holds one size for every row of the year. When no row is
  left the plot returns without drawing; when every row is left the sizes fit; when
  some rows but not all are left out, the sizes no longer fit the points and the call
  raises \<^verbatim>\<open>ValueError\<close>.
\<close>

definition drawable :: "row \<Rightarrow> bool" where
  "drawable r = (gdp_pct_change r \<noteq> None \<and> enrollment_pct_change r \<noteq> None)"

definition scatter_accepts :: "row list \<Rightarrow> bool" where
  "scatter_accepts sub =
     (let kept = filter drawable sub in kept = [] \<or> length kept = length sub)"

definition SIZE_MISMATCH_MSG :: string where
  "SIZE_MISMATCH_MSG = ''s must be a scalar, or float array-like with the same size as x and y''"

text \<open>
  One turn of the loop over the years, for the year \<open>y\<close> at position \<open>i\<close>. The scatter
  plot is asked to colour by \<^verbatim>\<open>both_increase\<close> and refuses a table without it. The
  annotations are written after the scatter plot, so only when that call returned.
\<close>

definition static_panel :: "frame \<Rightarrow> nat \<Rightarrow> int \<Rightarrow> error + panel" where
  "static_panel df i y =
     (let sub = rows_of_year df y in
      if sub = [] then Inr (no_data_panel y)
      else if \<not> has_both_increase df
        then Inl (ValueError ''Could not interpret value `both_increase` for `hue`'')
      else if \<not> scatter_accepts sub then Inl (ValueError SIZE_MISMATCH_MSG)
      else Inr \<lparr> title = str_int y, axis_off = False, points = map scatter_point sub,
                 legend = (i = 0),
                 annotations = annotate (has_country df) (top_rows sub) \<rparr>)"

fun static_panels :: "frame \<Rightarrow> nat \<Rightarrow> int list \<Rightarrow> error + panel list" where
  "static_panels df i [] = Inr []"
| "static_panels df i (y # ys) =
     (case static_panel df i y of
        Inl e \<Rightarrow> Inl e
      | Inr p \<Rightarrow>
          (case static_panels df (Suc i) ys of
             Inl e \<Rightarrow> Inl e
           | Inr ps \<Rightarrow> Inr (p # ps)))"

text \<open>
  With no year at all, \<^verbatim>\<open>cols\<close> is 0 and the number of grid rows,
  \<^verbatim>\<open>(n + cols - 1) // cols\<close>, divides by zero.
\<close>

definition make_static_plot :: "frame \<Rightarrow> int list \<Rightarrow> error + figure" where
  "make_static_plot df years =
     (let n = length years; cols = min 3 n in
      if cols = 0 then Inl ZeroDivisionError
      else
        (let nrows = (n + cols - 1) div cols in
         case static_panels df 0 years of
           Inl e \<Rightarrow> Inl e
         | Inr ps \<Rightarrow>
             Inr \<lparr> fig_rows = nrows, fig_cols = cols, panels = ps,
                   hidden_cells = [n ..< nrows * cols] \<rparr>))"

section \<open>The interactive renderer\<close>

record interactive_figure =
  plotted :: "row list"
  sizes :: "real list"
  colors :: "string list"
  facet_col_wrap :: nat

definition rows_in_years :: "frame \<Rightarrow> int list \<Rightarrow> row list" where
  "rows_in_years df years =
     filter (\<lambda>r. case year r of None \<Rightarrow> False | Some y \<Rightarrow> y \<in> set years) (rows df)"

definition interactive_sizes :: "row list \<Rightarrow> real list" where
  "interactive_sizes sub =
     (let gdp_nonnull = dropna (map gdp_numeric sub) in
      if gdp_nonnull \<noteq> [] then
        (let min_g = Min (set gdp_nonnull); max_g = Max (set gdp_nonnull) in
         if max_g > min_g
         then map (\<lambda>r. 15 + 85 * ((fillna min_g (gdp_numeric r) - min_g) / (max_g - min_g))) sub
         else map (\<lambda>r. 35) sub)
      else map (\<lambda>r. 25) sub)"

text \<open>The non-null \<^verbatim>\<open>gdp_numeric\<close> values of a list of rows, as a set.\<close>

definition gdp_values :: "row list \<Rightarrow> real set" where
  "gdp_values sub = {v. \<exists>r \<in> set sub. gdp_numeric r = Some v}"

definition str_bool :: "bool \<Rightarrow> string" where
  "str_bool b = (if b then ''True'' else ''False'')"

text \<open>
  \<^verbatim>\<open>sub["both_increase"]\<close> is a plain subscript and raises \<^verbatim>\<open>KeyError\<close> on a table
  without the column; the chart itself refuses a hover field that is not a column,
  with a \<^verbatim>\<open>ValueError\<close> whose message is shortened here.
\<close>

definition make_interactive_plot :: "frame \<Rightarrow> int list \<Rightarrow> error + interactive_figure" where
  "make_interactive_plot df years =
     (let sub = rows_in_years df years; sz = interactive_sizes sub in
      if \<not> has_both_increase df then Inl (KeyError ''both_increase'')
      else if \<not> has_country df
        then Inl (ValueError ''Value of hover_data_0 is not the name of a column in data_frame'')
      else Inr \<lparr> plotted = sub, sizes = sz, colors = map (\<lambda>r. str_bool (both_increase r)) sub,
                 facet_col_wrap = 3 \<rparr>)"

section \<open>Example tables\<close>

definition example_row :: "int option \<Rightarrow> real option \<Rightarrow> real option \<Rightarrow> real option \<Rightarrow> row" where
  "example_row y g px py =
     \<lparr> country = CStr ''Atlantis'', year = y, gdp_numeric = g, enrollment_numeric = None,
       gdp_pct_change = px, enrollment_pct_change = py, both_increase = True \<rparr>"

definition example_frame :: "row list \<Rightarrow> frame" where
  "example_frame rs = \<lparr> rows = rs, has_country = True, has_both_increase = True \<rparr>"

definition year_frame :: "int list \<Rightarrow> frame" where
  "year_frame ys = example_frame (map (\<lambda>y. example_row (Some y) None None None) ys)"

definition gdp_rows :: "real option list \<Rightarrow> row list" where
  "gdp_rows gs = map (\<lambda>g. example_row (Some 2020) g None None) gs"

definition pct_rows :: "(real option \<times> real option) list \<Rightarrow> row list" where
  "pct_rows ps = map (\<lambda>(a, b). example_row (Some 2020) None a b) ps"

text \<open>A CSV file with the columns \<^verbatim>\<open>country\<close> and \<^verbatim>\<open>gdp\<close> only, and one record.\<close>

definition no_year_csv :: csv_table where
  "no_year_csv =
     \<lparr> csv_columns = [''country'', ''gdp''],
       csv_records = [(\<lambda>c. if c = ''country'' then CStr ''Atlantis''
                            else if c = ''gdp'' then CNum 1000 else CNull)] \<rparr>"

definition no_year_files :: files where
  "no_year_files p = (if p = MERGED_CSV then Some no_year_csv else None)"

text \<open>Four rows of one year that all have both percent changes, with their GDP.\<close>

definition sized_rows :: "row list" where
  "sized_rows =
     map (\<lambda>g. example_row (Some 2020) g (Some 1) (Some 2))
       [Some 0, Some 10000000, None, Some (- 90000000)]"

text \<open>A table with one row, of the year 2019, that has both percent changes.\<close>

definition single_frame :: frame where
  "single_frame = example_frame [example_row (Some 2019) (Some 1000) (Some 1) (Some 2)]"

text \<open>Seven rows of one year with their two percent changes, some of them null.\<close>

definition outlier_rows :: "row list" where
  "outlier_rows =
     pct_rows [(Some 1, Some 0), (Some 3, Some 4), (None, Some 6), (Some 2, None),
               (Some 0, Some 3), (Some 4, Some 0), (Some 0, Some 0)]"

text \<open>Four rows of one year, one of them without a GDP value.\<close>

definition mixed_gdp_rows :: "row list" where
  "mixed_gdp_rows = gdp_rows [Some 0, Some 50, None, Some 100]"

section \<open>Facts about the helpers\<close>

lemma set_dropna: "set (dropna xs) = {v. Some v \<in> set xs}"
  by (induction xs rule: dropna.induct) auto

lemma set_unique: "set (unique xs) = set xs"
  by (induction xs) auto

lemma distinct_unique: "distinct (unique xs)"
  by (induction xs) auto

lemma present_years_code: "present_years df = set (dropna (map year (rows df)))"
  by (force simp: present_years_def set_dropna image_iff)

lemma set_yrs: "set (sort (unique (dropna (map year (rows df))))) = present_years df"
  by (simp add: set_unique present_years_code)

lemma py_slice_last6: "py_slice_from (- 6) xs = drop (length xs - 6) xs"
proof -
  have "nat (max 0 (int (length xs) - 6)) = length xs - 6" by simp
  then show ?thesis by (simp add: py_slice_from_def Let_def)
qed

lemma sort_unique_eq: "sort (unique xs) = sorted_list_of_set (set xs)"
proof -
  have "sort (unique xs) = sort (remdups xs)"
    by (rule sorted_distinct_set_unique) (simp_all add: set_unique distinct_unique)
  then show ?thesis by (simp add: sorted_list_of_set_sort_remdups)
qed

lemma yrs_eq: "sort (unique (dropna (map year (rows df)))) = sorted_list_of_set (present_years df)"
  by (simp add: sort_unique_eq present_years_code)

lemma finite_present_years: "finite (present_years df)"
  by (simp add: present_years_code)

lemma choose_years_auto_eq:
  "choose_years df None =
     Inr (drop (card (present_years df) - 6) (sorted_list_of_set (present_years df)))"
proof -
  let ?L = "sorted_list_of_set (present_years df)"
  have "sort ?L = ?L"
    by (simp add: sort_key_id_if_sorted)
  then show ?thesis
    by (simp add: choose_years_def yrs_eq MAX_PANELS_def py_slice_last6)
qed

lemma strict_sorted_split:
  assumes "sorted_wrt (<) (xs :: int list)" "y \<in> set xs" "y \<notin> set (drop k xs)" "z \<in> set (drop k xs)"
  shows "y < z"
proof -
  have "y \<in> set (take k xs)"
    using assms(2,3) by (metis Un_iff append_take_drop_id set_append)
  then show ?thesis using assms(1,4) sorted_wrt_append[of "(<)" "take k xs" "drop k xs"] by simp
qed

lemma present_year_frame: "present_years (year_frame ys) = set ys"
  by (induction ys) (auto simp: present_years_def year_frame_def example_frame_def example_row_def)

lemma static_size_bounds: "10 \<le> static_size r \<and> static_size r \<le> 400"
  by (simp add: static_size_def clip_def)

lemma static_panel_no_data: "rows_of_year df y = [] \<Longrightarrow> static_panel df i y = Inr (no_data_panel y)"
  by (simp add: static_panel_def)

lemma static_panel_data:
  "rows_of_year df y \<noteq> [] \<Longrightarrow> has_both_increase df \<Longrightarrow>
   scatter_accepts (rows_of_year df y) \<Longrightarrow>
     static_panel df i y =
       Inr \<lparr> title = str_int y, axis_off = False,
             points = map scatter_point (rows_of_year df y), legend = (i = 0),
             annotations = annotate (has_country df) (top_rows (rows_of_year df y)) \<rparr>"
  by (simp add: static_panel_def Let_def)

lemma static_panel_mixed:
  "rows_of_year df y \<noteq> [] \<Longrightarrow> has_both_increase df \<Longrightarrow>
   \<not> scatter_accepts (rows_of_year df y) \<Longrightarrow>
     static_panel df i y = Inl (ValueError SIZE_MISMATCH_MSG)"
  by (simp add: static_panel_def Let_def)

lemma static_panels_first_error:
  "static_panel df i y = Inl e \<Longrightarrow> static_panels df i (y # ys) = Inl e"
  by simp

lemma static_panels_total:
  "\<forall>k < length ys. \<exists>p. static_panel df (i + k) (ys ! k) = Inr p \<Longrightarrow>
     \<exists>ps. static_panels df i ys = Inr ps \<and> length ps = length ys
        \<and> (\<forall>k < length ys. static_panel df (i + k) (ys ! k) = Inr (ps ! k))"
proof (induction ys arbitrary: i)
  case Nil
  then show ?case by simp
next
  case (Cons y ys)
  from Cons.prems[rule_format, of 0] obtain p where p: "static_panel df i y = Inr p" by auto
  have "\<forall>k < length ys. \<exists>p. static_panel df (Suc i + k) (ys ! k) = Inr p"
  proof (intro allI impI)
    fix k assume "k < length ys"
    then show "\<exists>p. static_panel df (Suc i + k) (ys ! k) = Inr p"
      using Cons.prems[rule_format, of "Suc k"] by simp
  qed
  from Cons.IH[OF this] obtain ps where ps: "static_panels df (Suc i) ys = Inr ps"
    "length ps = length ys" "\<forall>k < length ys. static_panel df (Suc i + k) (ys ! k) = Inr (ps ! k)"
    by blast
  have "\<forall>k < length (y # ys). static_panel df (i + k) ((y # ys) ! k) = Inr ((p # ps) ! k)"
  proof (intro allI impI)
    fix k assume k: "k < length (y # ys)"
    show "static_panel df (i + k) ((y # ys) ! k) = Inr ((p # ps) ! k)"
    proof (cases k)
      case 0 with p show ?thesis by simp
    next
      case (Suc j) with k ps(3) show ?thesis by simp
    qed
  qed
  with p ps show ?case by simp
qed

lemma make_static_plot_renders:
  assumes "years \<noteq> []" "\<forall>k < length years. \<exists>p. static_panel df k (years ! k) = Inr p"
  shows "\<exists>fig. make_static_plot df years = Inr fig \<and> length (panels fig) = length years
        \<and> (\<forall>k < length years. static_panel df k (years ! k) = Inr (panels fig ! k))"
proof -
  have "\<forall>k < length years. \<exists>p. static_panel df (0 + k) (years ! k) = Inr p"
    using assms(2) by simp
  from static_panels_total[OF this] obtain ps where ps: "static_panels df 0 years = Inr ps"
    "length ps = length years" "\<forall>k < length years. static_panel df k (years ! k) = Inr (ps ! k)"
    by auto
  have "min 3 (length years) \<noteq> 0" using assms(1) by simp
  then show ?thesis using ps by (simp add: make_static_plot_def Let_def)
qed

lemma make_static_plot_no_years: "make_static_plot df [] = Inl ZeroDivisionError"
  by (simp add: make_static_plot_def)

lemma mset_sort_values_desc: "mset (sort_values_desc f xs) = mset xs"
  by (simp add: sort_values_desc_def)

lemma sorted_sort_values_desc: "sorted_wrt (\<lambda>a b. f b \<le> f a) (sort_values_desc f xs)"
proof -
  have "sorted (map f (sort_key f (rev xs)))" by simp
  then have "sorted_wrt (\<lambda>a b. f a \<le> f b) (sort_key f (rev xs))"
    by (simp only: sorted_map)
  then show ?thesis
    by (simp add: sort_values_desc_def sorted_wrt_rev)
qed

lemma sorted_wrt_take_drop:
  assumes "sorted_wrt P xs" "a \<in> set (take k xs)" "b \<in> set (drop k xs)"
  shows "P a b"
  using assms sorted_wrt_append[of P "take k xs" "drop k xs"] by simp

lemma length_annotate: "length (annotate hc rs) =
    length (filter (\<lambda>r. gdp_pct_change r \<noteq> None \<and> enrollment_pct_change r \<noteq> None) rs)"
  by (induction rs) (auto split: option.splits)

lemma set_annotate: "a \<in> set (annotate hc rs) \<longleftrightarrow>
    (\<exists>r \<in> set rs. gdp_pct_change r = Some (ann_x a) \<and> enrollment_pct_change r = Some (ann_y a)
        \<and> ann_text a = (if hc then country r else CStr []))"
  by (induction rs) (auto split: option.splits)

lemma sqrt_25: "sqrt 25 = 5"
  using real_sqrt_abs[of 5] by simp

lemma dist_3_4: "dist_origin (example_row y g (Some 3) (Some 4)) = 5"
  by (simp add: dist_origin_def example_row_def sqrt_25)

lemma dist_1_1: "dist_origin (example_row y g (Some 1) (Some 1)) = sqrt 2"
  by (simp add: dist_origin_def example_row_def)

lemma sqrt2_less_5: "sqrt 2 < 5"
proof -
  have "sqrt 2 < sqrt 25" by (rule real_sqrt_less_mono) simp
  with sqrt_25 show ?thesis by linarith
qed

lemma top_rows_example:
  "top_rows (pct_rows [(Some 1, Some 1), (Some 3, Some 4)]) = pct_rows [(Some 3, Some 4), (Some 1, Some 1)]"
  using sqrt2_less_5
  by (simp add: top_rows_def sort_values_desc_def pct_rows_def dist_3_4 dist_1_1)

lemma top_rows_outlier_rows:
  "top_rows outlier_rows =
     pct_rows [(None, Some 6), (Some 3, Some 4), (Some 4, Some 0), (Some 0, Some 3), (Some 2, None)]"
  by (simp add: top_rows_def sort_values_desc_def outlier_rows_def pct_rows_def dist_origin_def example_row_def)

lemma gdp_values_code: "gdp_values sub = set (dropna (map gdp_numeric sub))"
  by (force simp: gdp_values_def set_dropna image_iff)

lemma finite_gdp_values: "finite (gdp_values sub)"
  by (simp add: gdp_values_code)

lemma dropna_empty_iff: "dropna (map gdp_numeric sub) = [] \<longleftrightarrow> gdp_values sub = {}"
  by (simp add: gdp_values_code)

lemma interactive_sizes_scaled:
  assumes "gdp_values sub \<noteq> {}" "Min (gdp_values sub) < Max (gdp_values sub)"
  shows "interactive_sizes sub =
     map (\<lambda>r. 15 + 85 * ((fillna (Min (gdp_values sub)) (gdp_numeric r) - Min (gdp_values sub))
                          / (Max (gdp_values sub) - Min (gdp_values sub)))) sub"
  using assms by (simp add: interactive_sizes_def Let_def dropna_empty_iff gdp_values_code[symmetric])

lemma interactive_sizes_equal:
  assumes "gdp_values sub \<noteq> {}" "Min (gdp_values sub) = Max (gdp_values sub)"
  shows "interactive_sizes sub = replicate (length sub) 35"
  using assms by (simp add: interactive_sizes_def Let_def dropna_empty_iff gdp_values_code[symmetric] map_replicate_const)

lemma interactive_sizes_none:
  assumes "gdp_values sub = {}"
  shows "interactive_sizes sub = replicate (length sub) 25"
  using assms by (simp add: interactive_sizes_def Let_def dropna_empty_iff map_replicate_const)

lemma rescale_bounds:
  fixes v lo hi :: real
  assumes "lo < hi" "lo \<le> v" "v \<le> hi"
  shows "15 \<le> 15 + 85 * ((v - lo) / (hi - lo))" "15 + 85 * ((v - lo) / (hi - lo)) \<le> 100"
proof -
  define t where "t = (v - lo) / (hi - lo)"
  have t: "0 \<le> t" "t \<le> 1" using assms by (simp_all add: t_def)
  from t show "15 \<le> 15 + 85 * ((v - lo) / (hi - lo))"
    unfolding t_def[symmetric] by linarith
  from t show "15 + 85 * ((v - lo) / (hi - lo)) \<le> 100"
    unfolding t_def[symmetric] by linarith
qed

lemma fillna_in_range:
  assumes "r \<in> set sub" "gdp_values sub \<noteq> {}"
  shows "Min (gdp_values sub) \<le> fillna (Min (gdp_values sub)) (gdp_numeric r)
       \<and> fillna (Min (gdp_values sub)) (gdp_numeric r) \<le> Max (gdp_values sub)"
proof (cases "gdp_numeric r")
  case None
  then show ?thesis using assms(2) finite_gdp_values[of sub] by simp
next
  case (Some v)
  with assms(1) have "v \<in> gdp_values sub" by (auto simp: gdp_values_def)
  with Some show ?thesis using finite_gdp_values[of sub] by simp
qed

lemma interactive_sizes_range:
  assumes "gdp_values sub \<noteq> {}" "Min (gdp_values sub) < Max (gdp_values sub)"
    "s \<in> set (interactive_sizes sub)"
  shows "15 \<le> s \<and> s \<le> 100"
proof -
  from assms(3) obtain r where r: "r \<in> set sub"
    "s = 15 + 85 * ((fillna (Min (gdp_values sub)) (gdp_numeric r) - Min (gdp_values sub))
                          / (Max (gdp_values sub) - Min (gdp_values sub)))"
    unfolding interactive_sizes_scaled[OF assms(1,2)] by auto
  from fillna_in_range[OF r(1) assms(1)] rescale_bounds[OF assms(2)] r(2)
  show ?thesis by blast
qed

lemma gdp_values_gdp_rows: "gdp_values (gdp_rows gs) = set (dropna gs)"
  by (simp add: gdp_values_code gdp_rows_def comp_def example_row_def)

lemma sizes_example_equal: "interactive_sizes (gdp_rows [Some 100, Some 100, Some 100]) = [35, 35, 35]"
  using interactive_sizes_equal[of "gdp_rows [Some 100, Some 100, Some 100]"]
  by (simp add: gdp_values_gdp_rows) (simp add: gdp_rows_def)

lemma sizes_example_linear: "interactive_sizes (gdp_rows [Some 0, Some 50, Some 100]) = [15, 57.5, 100]"
  using interactive_sizes_scaled[of "gdp_rows [Some 0, Some 50, Some 100]"]
  by (simp add: gdp_values_gdp_rows) (simp add: gdp_rows_def example_row_def)

lemma gdp_values_mixed: "gdp_values mixed_gdp_rows = {0, 50, 100}"
  by (auto simp: mixed_gdp_rows_def gdp_values_gdp_rows)

lemma gdp_nth_mixed:
  "length mixed_gdp_rows = 4" "gdp_numeric (mixed_gdp_rows ! 1) = Some 50"
  "gdp_numeric (mixed_gdp_rows ! 2) = None"
  by (simp_all add: mixed_gdp_rows_def gdp_rows_def example_row_def)

lemma sizes_mixed: "interactive_sizes mixed_gdp_rows = [15, 57.5, 15, 100]"
  using interactive_sizes_scaled[of mixed_gdp_rows]
  by (simp add: gdp_values_mixed) (simp add: mixed_gdp_rows_def gdp_rows_def example_row_def)

lemma title_2020: "str_int 2020 @ '' (no data)'' = ''2020 (no data)''"
  by code_simp

lemma title_2021: "str_int 2021 @ '' (no data)'' = ''2021 (no data)''"
  by code_simp

lemma title_2019: "str_int 2019 = ''2019''"
  by code_simp

lemma load_and_prepare_missing_file:
  "fs path = None \<Longrightarrow> load_and_prepare fs path = ([], Inl (FileNotFoundError (path @ '' not found'')))"
  by (simp add: load_and_prepare_def)

lemma load_and_prepare_with_year:
  assumes "fs path = Some t" "''year'' \<in> set (csv_columns t)"
    "list_all is_whole (dropna (map (\<lambda>r. to_numeric (r ''year'')) (csv_records t)))"
  shows "\<exists>df. load_and_prepare fs path =
            (map warning (filter (\<lambda>c. c \<notin> set (csv_columns t)) EXPECTED_COLUMNS), Inr df)
          \<and> length (rows df) = length (csv_records t)"
  using assms by (simp add: load_and_prepare_def astype_Int64_def Let_def)

section \<open>The loader: a table without the year column\<close>

text \<open>
  Claim C1. The claim is that the loader fails only when the file is missing, and only
  warns about each expected column that the CSV lacks. The code does that for six of
  the seven columns. For a file that exists and has the columns \<^verbatim>\<open>country\<close> and
  \<^verbatim>\<open>gdp\<close> only, the loader prints its five warnings, the one for \<^verbatim>\<open>year\<close> among
  them, and then fails with \<^verbatim>\<open>KeyError\<close> at \<^verbatim>\<open>df["year"]\<close>.
\<close>

theorem load_missing_year:
  "no_year_files MERGED_CSV = Some no_year_csv
   \<and> load_and_prepare no_year_files MERGED_CSV =
       (map warning [''year'', ''enrollment'', ''gdp_pct_change'', ''enrollment_pct_change'',
                     ''both_increase''],
        Inl (KeyError ''year''))"
  by (simp add: load_and_prepare_def no_year_files_def no_year_csv_def EXPECTED_COLUMNS_def)

section \<open>The year selector: explicit list\<close>

text \<open>
  Claim C2. With a non-empty explicit list \<^verbatim>\<open>YEARS\<close>, \<^verbatim>\<open>choose_years\<close> returns the
  members of the list that occur as non-null values of the \<^verbatim>\<open>year\<close> column, in the
  order of the list, and raises the "no requested years present" error exactly when
  none of the listed years occurs in the table. In particular the list [2019, 2099] on
  a table whose only year is 2019 gives [2019].
\<close>

theorem choose_years_explicit:
  "(ys \<noteq> [] \<longrightarrow>
      choose_years df (Some ys) =
        (if \<forall>y \<in> set ys. y \<notin> present_years df then Inl (ValueError NO_YEARS_MSG)
         else Inr (filter (\<lambda>y. y \<in> present_years df) ys)))
   \<and> (present_years df = {2019} \<longrightarrow> choose_years df (Some [2019, 2099]) = Inr [2019])"
proof -
  have general: "choose_years df (Some zs) =
        (if \<forall>y \<in> set zs. y \<notin> present_years df then Inl (ValueError NO_YEARS_MSG)
         else Inr (filter (\<lambda>y. y \<in> present_years df) zs))" if "zs \<noteq> []" for zs
    using that by (simp add: choose_years_def set_yrs filter_empty_conv del: set_sort)
  have "choose_years df (Some [2019, 2099]) = Inr [2019]" if "present_years df = {2019}"
    using general[of "[2019, 2099]"] that by simp
  with general show ?thesis by blast
qed

theorem choose_years_explicit_witness:
  "[2019, 2099] \<noteq> ([] :: int list)
   \<and> present_years (year_frame [2019]) = {2019}
   \<and> choose_years (year_frame [2019]) (Some [2019, 2099]) = Inr [2019]
   \<and> [2098, 2099] \<noteq> ([] :: int list)
   \<and> choose_years (year_frame [2019]) (Some [2098, 2099]) = Inl (ValueError NO_YEARS_MSG)"
  using choose_years_explicit [of "[2019, 2099]" "year_frame [2019]"]
    choose_years_explicit [of "[2098, 2099]" "year_frame [2019]"]
  by (simp add: present_year_frame)

section \<open>The year selector: automatic choice\<close>

text \<open>
  Claim C3. Without an explicit list, \<^verbatim>\<open>choose_years\<close> returns years of the table in
  strictly ascending order. When the table has more than 6 distinct non-null years it
  returns 6 of them, and every year of the table that it leaves out is smaller than
  every year it returns, so these are the 6 most recent. When the table has 6 or fewer
  distinct years it returns all of them.
\<close>

theorem choose_years_auto:
  "\<exists>use. choose_years df None = Inr use
      \<and> sorted_wrt (<) use
      \<and> set use \<subseteq> present_years df
      \<and> (6 < card (present_years df) \<longrightarrow>
            length use = 6 \<and> (\<forall>y \<in> present_years df - set use. \<forall>z \<in> set use. y < z))
      \<and> (card (present_years df) \<le> 6 \<longrightarrow> set use = present_years df)"
proof -
  let ?P = "present_years df"
  let ?L = "sorted_list_of_set ?P"
  let ?use = "drop (card ?P - 6) ?L"
  have fin: "finite ?P" by (rule finite_present_years)
  have L: "sorted_wrt (<) ?L" "set ?L = ?P" "length ?L = card ?P"
    using fin by (simp_all add: strict_sorted_iff del: sorted_list_of_set.strict_sorted_key_list_of_set)
  have 1: "choose_years df None = Inr ?use" by (rule choose_years_auto_eq)
  have 2: "sorted_wrt (<) ?use" using L(1) by (rule sorted_wrt_drop)
  have 3: "set ?use \<subseteq> ?P" using set_drop_subset[of "card ?P - 6" ?L] L(2) by simp
  have 4: "6 < card ?P \<longrightarrow> length ?use = 6" using L(3) by simp
  have 5: "\<forall>y \<in> ?P - set ?use. \<forall>z \<in> set ?use. y < z"
    using strict_sorted_split[OF L(1)] L(2) by blast
  have 6: "card ?P \<le> 6 \<longrightarrow> set ?use = ?P" using L(2) by simp
  show ?thesis using 1 2 3 4 5 6 by blast
qed

theorem choose_years_auto_witness:
  "6 < card (present_years (year_frame [2011, 2019, 2012, 2013, 2014, 2015, 2016, 2019]))
   \<and> (\<exists>use. choose_years (year_frame [2011, 2019, 2012, 2013, 2014, 2015, 2016, 2019]) None = Inr use
         \<and> use = [2012, 2013, 2014, 2015, 2016, 2019] \<and> length use = 6
         \<and> 2011 \<in> present_years (year_frame [2011, 2019, 2012, 2013, 2014, 2015, 2016, 2019]) - set use
         \<and> (\<forall>z \<in> set use. 2011 < z))
   \<and> card (present_years (year_frame [2021, 2020])) \<le> 6
   \<and> (\<exists>use. choose_years (year_frame [2021, 2020]) None = Inr use
         \<and> sorted_wrt (<) use \<and> set use = {2020, 2021})"
proof -
  let ?F = "year_frame [2011, 2019, 2012, 2013, 2014, 2015, 2016, 2019]"
  let ?G = "year_frame [2021, 2020]"
  have cF: "6 < card (present_years ?F)" unfolding present_year_frame card_set by simp
  have cG: "card (present_years ?G) \<le> 6" unfolding present_year_frame card_set by simp
  have eF: "choose_years ?F None = Inr [2012, 2013, 2014, 2015, 2016, 2019]"
    by code_simp
  have inF: "2011 \<in> present_years ?F - set [2012, 2013, 2014, 2015, 2016, 2019]"
    by (simp add: present_year_frame)
  from choose_years_auto [of ?F] cF eF inF
  have F: "\<exists>use. choose_years ?F None = Inr use
         \<and> use = [2012, 2013, 2014, 2015, 2016, 2019] \<and> length use = 6
         \<and> 2011 \<in> present_years ?F - set use \<and> (\<forall>z \<in> set use. 2011 < z)"
    by simp
  from choose_years_auto [of ?G] cG
  have G: "\<exists>use. choose_years ?G None = Inr use \<and> sorted_wrt (<) use \<and> set use = {2020, 2021}"
    by (auto simp: present_year_frame)
  from cF F cG G show ?thesis by blast
qed

section \<open>The year selector: only years of the table\<close>

text \<open>
  Claim C8. Whatever \<^verbatim>\<open>YEARS\<close> is, every year that \<^verbatim>\<open>choose_years\<close> returns occurs
  as a non-null value of the \<^verbatim>\<open>year\<close> column of the table.
\<close>

theorem choose_years_present:
  "choose_years df YEARS = Inr use \<Longrightarrow> set use \<subseteq> present_years df"
proof (cases "truthy YEARS")
  case True
  assume "choose_years df YEARS = Inr use"
  with True show ?thesis
    by (auto simp: choose_years_def set_yrs Let_def simp del: set_sort split: if_splits)
next
  case False
  assume a: "choose_years df YEARS = Inr use"
  from False have "choose_years df YEARS = choose_years df None"
    by (simp add: choose_years_def)
  with a show ?thesis
    using set_drop_subset[of "card (present_years df) - 6" "sorted_list_of_set (present_years df)"]
    by (auto simp: choose_years_auto_eq finite_present_years)
qed

theorem choose_years_present_witness:
  "choose_years (year_frame [2018, 2019]) (Some [2019, 2099]) = Inr [2019]
   \<and> set [2019] \<subseteq> present_years (year_frame [2018, 2019])
   \<and> choose_years (year_frame [2018, 2019]) None = Inr [2018, 2019]
   \<and> set [2018, 2019] \<subseteq> present_years (year_frame [2018, 2019])"
proof -
  have a: "choose_years (year_frame [2018, 2019]) (Some [2019, 2099]) = Inr [2019]"
    by code_simp
  have b: "choose_years (year_frame [2018, 2019]) None = Inr [2018, 2019]"
    by code_simp
  from a b choose_years_present [OF a] choose_years_present [OF b] show ?thesis by simp
qed

section \<open>The year selector: the empty explicit list\<close>

text \<open>
  Claim C9. An explicit list that is empty does not raise the "no requested years
  present" error: \<^verbatim>\<open>if YEARS:\<close> is false for it as for \<^verbatim>\<open>None\<close>, and the selector
  returns what it returns without a list, the up to 6 most recent years of the table
  in ascending order.
\<close>

theorem choose_years_empty_list:
  "choose_years df (Some []) = choose_years df None
   \<and> choose_years df (Some []) =
       Inr (drop (card (present_years df) - 6) (sorted_list_of_set (present_years df)))"
  using choose_years_auto_eq[of df] by (simp add: choose_years_def)

theorem choose_years_empty_list_witness:
  "choose_years (year_frame [2019, 2018]) (Some []) = Inr [2018, 2019]"
proof -
  have "choose_years (year_frame [2019, 2018]) None = Inr [2018, 2019]"
    by code_simp
  with choose_years_empty_list [of "year_frame [2019, 2018]"] show ?thesis by simp
qed

section \<open>The static renderer: marker sizes\<close>

text \<open>
  Claim C4. In a panel of the static plot, the marker size of a row is the absolute
  value of its \<^verbatim>\<open>gdp_numeric\<close>, null counting as 0, times 0.00002, brought into the
  range from 10 to 400. So every marker size lies between 10 and 400, and a row with a
  null \<^verbatim>\<open>gdp_numeric\<close> has size 10. For a year that has rows, these are the sizes
  handed to the scatter plot, row by row; the panel is made when the scatter plot
  accepts the rows, that is when all of them or none of them have both percent changes.
\<close>

theorem static_marker_size:
  "static_size r =
     (let v = \<bar>case gdp_numeric r of None \<Rightarrow> 0 | Some g \<Rightarrow> g\<bar> * 0.00002
      in if v < 10 then 10 else if 400 < v then 400 else v)
   \<and> 10 \<le> static_size r \<and> static_size r \<le> 400
   \<and> (gdp_numeric r = None \<longrightarrow> static_size r = 10)
   \<and> (rows_of_year df y \<noteq> [] \<and> has_both_increase df
        \<and> scatter_accepts (rows_of_year df y) \<longrightarrow>
         map_sum id (\<lambda>p. map pt_size (points p)) (static_panel df i y)
           = Inr (map static_size (rows_of_year df y)))"
proof -
  have 1: "static_size r =
     (let v = \<bar>case gdp_numeric r of None \<Rightarrow> 0 | Some g \<Rightarrow> g\<bar> * 0.00002
      in if v < 10 then 10 else if 400 < v then 400 else v)"
    by (cases "gdp_numeric r") (simp_all add: static_size_def clip_def SIZE_SCALE_def Let_def min_def max_def)
  have 2: "gdp_numeric r = None \<longrightarrow> static_size r = 10"
    by (simp add: static_size_def clip_def)
  have 3: "rows_of_year df y \<noteq> [] \<and> has_both_increase df
        \<and> scatter_accepts (rows_of_year df y) \<longrightarrow>
         map_sum id (\<lambda>p. map pt_size (points p)) (static_panel df i y)
           = Inr (map static_size (rows_of_year df y))"
    by (simp add: static_panel_data scatter_point_def comp_def)
  from 1 2 3 static_size_bounds[of r] show ?thesis by blast
qed

theorem static_marker_size_witness:
  "gdp_numeric (example_row (Some 2020) None (Some 1) (Some 2)) = None
   \<and> static_size (example_row (Some 2020) None (Some 1) (Some 2)) = 10
   \<and> rows_of_year (example_frame sized_rows) 2020 \<noteq> []
   \<and> has_both_increase (example_frame sized_rows)
   \<and> scatter_accepts (rows_of_year (example_frame sized_rows) 2020)
   \<and> map_sum id (\<lambda>p. map pt_size (points p)) (static_panel (example_frame sized_rows) 0 2020)
       = Inr [10, 200, 10, 400]"
proof -
  let ?F = "example_frame sized_rows"
  let ?r = "example_row (Some 2020) None (Some 1) (Some 2)"
  have rows: "rows_of_year ?F 2020 = sized_rows"
    by (simp add: rows_of_year_def example_frame_def sized_rows_def example_row_def)
  have ne: "sized_rows \<noteq> []" by (simp add: sized_rows_def)
  have hb: "has_both_increase ?F" by (simp add: example_frame_def)
  have acc: "scatter_accepts sized_rows"
    by (simp add: scatter_accepts_def drawable_def sized_rows_def example_row_def)
  have sz: "map static_size sized_rows = [10, 200, 10, 400]"
    by (simp add: static_size_def clip_def SIZE_SCALE_def sized_rows_def example_row_def)
  have n: "gdp_numeric ?r = None" by (simp add: example_row_def)
  from static_marker_size[of ?r ?F 2020 0] rows ne hb acc sz n show ?thesis
    by simp
qed

section \<open>The static renderer: a year without rows\<close>

text \<open>
  Claim C5. For a selected year that has no row in the table, the static renderer
  makes a panel with the title "<year> (no data)", axes off and no point, and does not
  fail there: the loop goes on with the years that follow, and the figure, when the
  panels of the other years are made, has one panel for each selected year with the
  empty one at the place of that year.
\<close>

theorem static_no_data:
  "rows_of_year df y = [] \<Longrightarrow>
     static_panel df i y =
       Inr \<lparr> title = str_int y @ '' (no data)'', axis_off = True, points = [],
             legend = False, annotations = [] \<rparr>
     \<and> static_panels df i (y # ys) =
         (case static_panels df (Suc i) ys of
            Inl e \<Rightarrow> Inl e
          | Inr ps \<Rightarrow> Inr (no_data_panel y # ps))
     \<and> ((\<forall>k < length (pre @ y # ys). k \<noteq> length pre \<longrightarrow>
            (\<exists>p. static_panel df k ((pre @ y # ys) ! k) = Inr p)) \<longrightarrow>
          (\<exists>fig. make_static_plot df (pre @ y # ys) = Inr fig
             \<and> length (panels fig) = length (pre @ y # ys)
             \<and> panels fig ! length pre = no_data_panel y
             \<and> (\<forall>k < length (pre @ y # ys).
                   static_panel df k ((pre @ y # ys) ! k) = Inr (panels fig ! k))))"
proof -
  assume e: "rows_of_year df y = []"
  have 1: "static_panel df i y = Inr (no_data_panel y)" for i
    using e by (rule static_panel_no_data)
  have 2: "static_panels df i (y # ys) =
         (case static_panels df (Suc i) ys of
            Inl e \<Rightarrow> Inl e
          | Inr ps \<Rightarrow> Inr (no_data_panel y # ps))"
    by (simp add: 1)
  have 3: "\<exists>fig. make_static_plot df (pre @ y # ys) = Inr fig
             \<and> length (panels fig) = length (pre @ y # ys)
             \<and> panels fig ! length pre = no_data_panel y
             \<and> (\<forall>k < length (pre @ y # ys).
                   static_panel df k ((pre @ y # ys) ! k) = Inr (panels fig ! k))"
    if h: "\<forall>k < length (pre @ y # ys). k \<noteq> length pre \<longrightarrow>
            (\<exists>p. static_panel df k ((pre @ y # ys) ! k) = Inr p)"
  proof -
    have all: "\<forall>k < length (pre @ y # ys). \<exists>p. static_panel df k ((pre @ y # ys) ! k) = Inr p"
    proof (intro allI impI)
      fix k assume k: "k < length (pre @ y # ys)"
      show "\<exists>p. static_panel df k ((pre @ y # ys) ! k) = Inr p"
      proof (cases "k = length pre")
        case True
        then show ?thesis using 1[of k] by simp
      next
        case False
        with h k show ?thesis by blast
      qed
    qed
    have ne: "pre @ y # ys \<noteq> []" by simp
    from make_static_plot_renders[OF ne all]
    obtain fig where fig: "make_static_plot df (pre @ y # ys) = Inr fig"
      "length (panels fig) = length (pre @ y # ys)"
      "\<forall>k < length (pre @ y # ys). static_panel df k ((pre @ y # ys) ! k) = Inr (panels fig ! k)"
      by auto
    from fig(3)[rule_format, of "length pre"] 1[of "length pre"]
    have "panels fig ! length pre = no_data_panel y" by simp
    with fig show ?thesis by blast
  qed
  from 1[of i] 2 3 show ?thesis by (simp add: no_data_panel_def)
qed

theorem static_no_data_witness:
  "rows_of_year single_frame 2020 = []
   \<and> static_panel single_frame 1 2020 =
       Inr \<lparr> title = ''2020 (no data)'', axis_off = True, points = [],
             legend = False, annotations = [] \<rparr>
   \<and> (\<exists>p. static_panel single_frame 0 2019 = Inr p)
   \<and> (\<exists>p. static_panel single_frame 2 2021 = Inr p)
   \<and> (\<exists>fig. make_static_plot single_frame [2019, 2020, 2021] = Inr fig
         \<and> length (panels fig) = 3
         \<and> panels fig ! 1 = \<lparr> title = ''2020 (no data)'', axis_off = True, points = [],
                                 legend = False, annotations = [] \<rparr>
         \<and> title (panels fig ! 0) = ''2019'' \<and> length (points (panels fig ! 0)) = 1
         \<and> title (panels fig ! 2) = ''2021 (no data)'')"
proof -
  let ?F = "single_frame"
  let ?r = "example_row (Some 2019) (Some 1000) (Some 1) (Some 2)"
  have e: "rows_of_year ?F 2020 = []"
    by (simp add: rows_of_year_def single_frame_def example_frame_def example_row_def)
  have e1: "rows_of_year ?F 2021 = []"
    by (simp add: rows_of_year_def single_frame_def example_frame_def example_row_def)
  have d: "rows_of_year ?F 2019 = [?r]"
    by (simp add: rows_of_year_def single_frame_def example_frame_def example_row_def)
  have hb: "has_both_increase ?F" by (simp add: single_frame_def example_frame_def)
  have acc: "scatter_accepts [?r]"
    by (simp add: scatter_accepts_def drawable_def example_row_def)
  have p0: "static_panel ?F 0 2019 = Inr \<lparr> title = str_int 2019, axis_off = False,
             points = map scatter_point [?r], legend = True,
             annotations = annotate (has_country ?F) (top_rows [?r]) \<rparr>"
    using static_panel_data[of ?F 2019 0] d hb acc by simp
  have p2: "static_panel ?F 2 2021 = Inr (no_data_panel 2021)"
    using static_panel_no_data[OF e1, of 2] by simp
  have others: "\<forall>k < 3. k \<noteq> Suc 0 \<longrightarrow>
            (\<exists>p. static_panel ?F k ([2019, 2020, 2021] ! k) = Inr p)"
  proof (intro allI impI)
    fix k :: nat assume "k < 3" "k \<noteq> Suc 0"
    then have "k = 0 \<or> k = 2" by auto
    then show "\<exists>p. static_panel ?F k ([2019, 2020, 2021] ! k) = Inr p"
      using p0 p2 by auto
  qed
  from static_no_data[OF e, of 1 "[2021]" "[2019]"] others
  obtain fig where fig: "static_panel ?F 1 2020 =
       Inr \<lparr> title = str_int 2020 @ '' (no data)'', axis_off = True, points = [],
             legend = False, annotations = [] \<rparr>"
    "make_static_plot ?F [2019, 2020, 2021] = Inr fig"
    "length (panels fig) = 3"
    "panels fig ! 1 = no_data_panel 2020"
    "\<forall>k < 3. static_panel ?F k ([2019, 2020, 2021] ! k) = Inr (panels fig ! k)"
    by auto
  from fig(5)[rule_format, of 0] p0 have q0: "panels fig ! 0 = \<lparr> title = str_int 2019, axis_off = False,
             points = map scatter_point [?r], legend = True,
             annotations = annotate (has_country ?F) (top_rows [?r]) \<rparr>"
    by simp
  from fig(5)[rule_format, of 2] p2 have q2: "panels fig ! 2 = no_data_panel 2021"
    by simp
  from e fig q0 q2 p0 p2 show ?thesis
    by (simp add: no_data_panel_def title_2020 title_2021 title_2019)
qed

section \<open>The static renderer: annotated outliers\<close>

text \<open>
  The annotation step of a panel, lines 101 to 106, taken by itself: rows are ranked by
  their distance from the origin, a null percent change counting as 0; the rows chosen
  are the first five of the ranking, and no row left out is farther from the origin
  than a chosen one; a chosen row gets a text exactly when both of its percent changes
  are present. This is what the step does when the renderer reaches it.
\<close>

lemma annotate_top_rows:
  "dist_origin r = sqrt ((case gdp_pct_change r of None \<Rightarrow> 0 | Some v \<Rightarrow> v)\<^sup>2
                 + (case enrollment_pct_change r of None \<Rightarrow> 0 | Some v \<Rightarrow> v)\<^sup>2)
   \<and> length (top_rows sub) = min 5 (length sub)
   \<and> mset (top_rows sub) \<subseteq># mset sub
   \<and> (\<forall>a \<in> set (top_rows sub). \<forall>b \<in># mset sub - mset (top_rows sub). dist_origin b \<le> dist_origin a)
   \<and> length (annotate hc (top_rows sub)) \<le> 5
   \<and> length (annotate hc (top_rows sub)) =
       length (filter (\<lambda>r. gdp_pct_change r \<noteq> None \<and> enrollment_pct_change r \<noteq> None) (top_rows sub))
   \<and> (\<forall>a. a \<in> set (annotate hc (top_rows sub)) \<longleftrightarrow>
         (\<exists>r \<in> set (top_rows sub).
             gdp_pct_change r = Some (ann_x a) \<and> enrollment_pct_change r = Some (ann_y a)
             \<and> ann_text a = (if hc then country r else CStr [])))
   \<and> dist_origin (example_row (Some 2020) None (Some 3) (Some 4)) = 5
   \<and> dist_origin (example_row (Some 2020) None (Some 1) (Some 1)) = sqrt 2
   \<and> dist_origin (example_row (Some 2020) None (Some 1) (Some 1))
        < dist_origin (example_row (Some 2020) None (Some 3) (Some 4))
   \<and> top_rows (pct_rows [(Some 1, Some 1), (Some 3, Some 4)])
        = pct_rows [(Some 3, Some 4), (Some 1, Some 1)]"
proof -
  let ?S = "sort_values_desc dist_origin sub"
  have 1: "dist_origin r = sqrt ((case gdp_pct_change r of None \<Rightarrow> 0 | Some v \<Rightarrow> v)\<^sup>2
                 + (case enrollment_pct_change r of None \<Rightarrow> 0 | Some v \<Rightarrow> v)\<^sup>2)"
    by (cases "gdp_pct_change r"; cases "enrollment_pct_change r") (simp_all add: dist_origin_def)
  have len: "length ?S = length sub"
    using mset_sort_values_desc[of dist_origin sub] by (metis size_mset)
  have 2: "length (top_rows sub) = min 5 (length sub)"
    by (simp add: top_rows_def len)
  have split: "mset (top_rows sub) + mset (drop 5 ?S) = mset sub"
    unfolding top_rows_def
    by (metis append_take_drop_id mset_append mset_sort_values_desc)
  then have 3: "mset (top_rows sub) \<subseteq># mset sub"
    by (metis mset_subset_eq_add_left)
  from split have rest: "mset sub - mset (top_rows sub) = mset (drop 5 ?S)"
    by (metis add_diff_cancel_left')
  have 4: "\<forall>a \<in> set (top_rows sub). \<forall>b \<in># mset sub - mset (top_rows sub). dist_origin b \<le> dist_origin a"
    unfolding rest using sorted_wrt_take_drop[OF sorted_sort_values_desc[of dist_origin sub], of _ 5]
    by (auto simp: top_rows_def)
  have 6: "length (annotate hc (top_rows sub)) =
       length (filter (\<lambda>r. gdp_pct_change r \<noteq> None \<and> enrollment_pct_change r \<noteq> None) (top_rows sub))"
    by (rule length_annotate)
  have "length (annotate hc (top_rows sub)) \<le> length (top_rows sub)"
    unfolding 6 by (rule length_filter_le)
  with 2 have 5: "length (annotate hc (top_rows sub)) \<le> 5" by simp
  have 7: "\<forall>a. a \<in> set (annotate hc (top_rows sub)) \<longleftrightarrow>
         (\<exists>r \<in> set (top_rows sub).
             gdp_pct_change r = Some (ann_x a) \<and> enrollment_pct_change r = Some (ann_y a)
             \<and> ann_text a = (if hc then country r else CStr []))"
    using set_annotate by blast
  have 9: "dist_origin (example_row (Some 2020) None (Some 1) (Some 1))
        < dist_origin (example_row (Some 2020) None (Some 3) (Some 4))"
    using sqrt2_less_5 by (simp only: dist_3_4 dist_1_1)
  show ?thesis
    using 1 2 3 4 5 6 7 9 dist_3_4 dist_1_1 top_rows_example by blast
qed

lemma outlier_rows_mixed:
  "rows_of_year (example_frame outlier_rows) 2020 = outlier_rows"
  "outlier_rows \<noteq> []"
  "has_both_increase (example_frame outlier_rows)"
  "filter drawable outlier_rows =
     pct_rows [(Some 1, Some 0), (Some 3, Some 4), (Some 0, Some 3), (Some 4, Some 0), (Some 0, Some 0)]"
  "\<not> scatter_accepts outlier_rows"
  by (simp_all add: rows_of_year_def example_frame_def outlier_rows_def pct_rows_def
        example_row_def scatter_accepts_def drawable_def)

text \<open>
  Claim C6. The claim is that in each static panel the rows are ranked by their
  distance from the origin with null percent changes counting as zero, that the five
  farthest are annotated with their country, and that a chosen row with a null percent
  change is passed over. The renderer does not get that far for a year in which some
  rows lack a percent change and others have both: the scatter plot receives one size
  for each of the seven rows below but draws only five of them, raises
  \<^verbatim>\<open>ValueError\<close>, and no text is written and no figure is made. The two rows at
  (null, 6) and (2, null) are among the five farthest and would have been passed over.
\<close>

theorem static_panel_mixed_nulls:
  "length outlier_rows = 7
   \<and> length (filter drawable outlier_rows) = 5
   \<and> static_panel (example_frame outlier_rows) 0 2020 = Inl (ValueError SIZE_MISMATCH_MSG)
   \<and> make_static_plot (example_frame outlier_rows) [2020] = Inl (ValueError SIZE_MISMATCH_MSG)
   \<and> top_rows outlier_rows =
       pct_rows [(None, Some 6), (Some 3, Some 4), (Some 4, Some 0), (Some 0, Some 3), (Some 2, None)]"
proof -
  have 1: "length outlier_rows = 7" by (simp add: outlier_rows_def pct_rows_def)
  have 2: "length (filter drawable outlier_rows) = 5"
    by (simp add: outlier_rows_mixed(4) pct_rows_def)
  have 3: "static_panel (example_frame outlier_rows) 0 2020 = Inl (ValueError SIZE_MISMATCH_MSG)"
    using static_panel_mixed[of "example_frame outlier_rows" 2020 0] outlier_rows_mixed by simp
  have 4: "make_static_plot (example_frame outlier_rows) [2020] = Inl (ValueError SIZE_MISMATCH_MSG)"
    by (simp add: make_static_plot_def 3)
  from 1 2 3 4 top_rows_outlier_rows show ?thesis by simp
qed

section \<open>The interactive renderer: marker sizes\<close>

text \<open>
  Claim C7. In the interactive plot, with min and max the least and greatest non-null
  \<^verbatim>\<open>gdp_numeric\<close> of the rows of the selected years: when min < max, a row with value
  v has size 15 + 85 * (v - min) / (max - min), and every size lies between 15 and 100;
  when there is a non-null value and min = max, every size is 35; when there is no
  non-null value, every size is 25. The values 100, 100, 100 give 35 three times, and
  the values 0, 50, 100 give 15, 57.5 and 100.
\<close>

theorem interactive_marker_size:
  "(gdp_values sub \<noteq> {} \<and> Min (gdp_values sub) < Max (gdp_values sub) \<longrightarrow>
      length (interactive_sizes sub) = length sub
      \<and> (\<forall>k < length sub. \<forall>v. gdp_numeric (sub ! k) = Some v \<longrightarrow>
            interactive_sizes sub ! k =
              15 + 85 * (v - Min (gdp_values sub)) / (Max (gdp_values sub) - Min (gdp_values sub)))
      \<and> (\<forall>s \<in> set (interactive_sizes sub). 15 \<le> s \<and> s \<le> 100))
   \<and> (gdp_values sub \<noteq> {} \<and> Min (gdp_values sub) = Max (gdp_values sub) \<longrightarrow>
        interactive_sizes sub = replicate (length sub) 35)
   \<and> (gdp_values sub = {} \<longrightarrow> interactive_sizes sub = replicate (length sub) 25)
   \<and> interactive_sizes (gdp_rows [Some 100, Some 100, Some 100]) = [35, 35, 35]
   \<and> interactive_sizes (gdp_rows [Some 0, Some 50, Some 100]) = [15, 57.5, 100]
   \<and> (has_both_increase df \<and> has_country df \<longrightarrow>
        map_sum id sizes (make_interactive_plot df years) =
          Inr (interactive_sizes (rows_in_years df years)))"
proof -
  have 1: "length (interactive_sizes sub) = length sub
      \<and> (\<forall>k < length sub. \<forall>v. gdp_numeric (sub ! k) = Some v \<longrightarrow>
            interactive_sizes sub ! k =
              15 + 85 * (v - Min (gdp_values sub)) / (Max (gdp_values sub) - Min (gdp_values sub)))
      \<and> (\<forall>s \<in> set (interactive_sizes sub). 15 \<le> s \<and> s \<le> 100)"
    if h: "gdp_values sub \<noteq> {}" "Min (gdp_values sub) < Max (gdp_values sub)"
    using interactive_sizes_range[OF h]
    by (simp add: interactive_sizes_scaled[OF h])
  have 2: "has_both_increase df \<and> has_country df \<longrightarrow>
        map_sum id sizes (make_interactive_plot df years) =
          Inr (interactive_sizes (rows_in_years df years))"
    by (simp add: make_interactive_plot_def Let_def)
  from 1 2 interactive_sizes_equal[of sub] interactive_sizes_none[of sub]
    sizes_example_equal sizes_example_linear
  show ?thesis by blast
qed

theorem interactive_marker_size_witness:
  "gdp_values mixed_gdp_rows \<noteq> {}
   \<and> Min (gdp_values mixed_gdp_rows) < Max (gdp_values mixed_gdp_rows)
   \<and> gdp_numeric (mixed_gdp_rows ! 1) = Some 50
   \<and> interactive_sizes mixed_gdp_rows ! 1 = 15 + 85 * (50 - 0) / (100 - 0)
   \<and> interactive_sizes mixed_gdp_rows ! 3 \<in> set (interactive_sizes mixed_gdp_rows)
   \<and> 15 \<le> interactive_sizes mixed_gdp_rows ! 3
   \<and> interactive_sizes mixed_gdp_rows ! 3 \<le> 100
   \<and> gdp_values (gdp_rows [Some 100, Some 100, Some 100]) \<noteq> {}
   \<and> Min (gdp_values (gdp_rows [Some 100, Some 100, Some 100]))
        = Max (gdp_values (gdp_rows [Some 100, Some 100, Some 100]))
   \<and> interactive_sizes (gdp_rows [Some 100, Some 100, Some 100]) = [35, 35, 35]
   \<and> gdp_values (gdp_rows [None, None]) = {}
   \<and> interactive_sizes (gdp_rows [None, None]) = [25, 25]
   \<and> has_both_increase (example_frame mixed_gdp_rows) \<and> has_country (example_frame mixed_gdp_rows)
   \<and> map_sum id sizes (make_interactive_plot (example_frame mixed_gdp_rows) [2020])
        = Inr [15, 57.5, 15, 100]"
proof -
  let ?F = "example_frame mixed_gdp_rows"
  have g1: "gdp_values mixed_gdp_rows \<noteq> {}" "Min (gdp_values mixed_gdp_rows) = 0"
    "Max (gdp_values mixed_gdp_rows) = 100"
    by (simp_all add: gdp_values_mixed)
  have g2: "gdp_values (gdp_rows [Some 100, Some 100, Some 100]) = {100}"
    by (simp add: gdp_values_gdp_rows)
  have g3: "gdp_values (gdp_rows [None, None]) = {}"
    by (simp add: gdp_values_gdp_rows)
  have hb: "has_both_increase ?F" "has_country ?F" by (simp_all add: example_frame_def)
  have rows: "rows_in_years ?F [2020] = mixed_gdp_rows"
    by (simp add: rows_in_years_def example_frame_def mixed_gdp_rows_def gdp_rows_def example_row_def)
  note t1 = interactive_marker_size[of mixed_gdp_rows ?F "[2020]"]
  note t2 = interactive_marker_size[of "gdp_rows [Some 100, Some 100, Some 100]" ?F "[2020]"]
  note t3 = interactive_marker_size[of "gdp_rows [None, None]" ?F "[2020]"]
  from t1 g1 gdp_nth_mixed have a: "interactive_sizes mixed_gdp_rows ! 1 = 15 + 85 * (50 - 0) / (100 - 0)"
    by simp
  have m: "interactive_sizes mixed_gdp_rows ! 3 \<in> set (interactive_sizes mixed_gdp_rows)"
    by (simp add: sizes_mixed)
  from t1 g1 have "\<forall>s \<in> set (interactive_sizes mixed_gdp_rows). 15 \<le> s \<and> s \<le> 100"
    by simp
  with m have b: "15 \<le> interactive_sizes mixed_gdp_rows ! 3"
    "interactive_sizes mixed_gdp_rows ! 3 \<le> 100"
    by blast+
  from t1 hb rows have c: "map_sum id sizes (make_interactive_plot ?F [2020]) = Inr [15, 57.5, 15, 100]"
    by (simp add: sizes_mixed)
  from t2 g2 have d: "interactive_sizes (gdp_rows [Some 100, Some 100, Some 100]) = [35, 35, 35]"
    by blast
  from t3 g3 have e: "interactive_sizes (gdp_rows [None, None]) = [25, 25]"
    by (simp add: gdp_rows_def)
  from g1 gdp_nth_mixed a m b c d e g2 g3 hb show ?thesis by simp
qed

section \<open>The interactive renderer: rows without a GDP value\<close>

text \<open>
  Claim C10. In the interactive plot, when the non-null \<^verbatim>\<open>gdp_numeric\<close> values have a
  maximum greater than their minimum, a row whose \<^verbatim>\<open>gdp_numeric\<close> is null is given
  the minimum before the rescaling and so gets the marker size 15.
\<close>

theorem interactive_null_size:
  "gdp_values sub \<noteq> {} \<Longrightarrow> Min (gdp_values sub) < Max (gdp_values sub) \<Longrightarrow>
   k < length sub \<Longrightarrow> gdp_numeric (sub ! k) = None \<Longrightarrow>
     fillna (Min (gdp_values sub)) (gdp_numeric (sub ! k)) = Min (gdp_values sub)
     \<and> interactive_sizes sub ! k = 15"
  by (simp add: interactive_sizes_scaled)

theorem interactive_null_size_witness:
  "gdp_values mixed_gdp_rows \<noteq> {}
   \<and> Min (gdp_values mixed_gdp_rows) < Max (gdp_values mixed_gdp_rows)
   \<and> 2 < length mixed_gdp_rows
   \<and> gdp_numeric (mixed_gdp_rows ! 2) = None
   \<and> interactive_sizes mixed_gdp_rows ! 2 = 15"
proof -
  have g: "gdp_values mixed_gdp_rows \<noteq> {}" "Min (gdp_values mixed_gdp_rows) < Max (gdp_values mixed_gdp_rows)"
    by (simp_all add: gdp_values_mixed)
  have l: "2 < length mixed_gdp_rows" by (simp add: gdp_nth_mixed)
  from interactive_null_size[OF g l gdp_nth_mixed(3)] g l gdp_nth_mixed(3)
  show ?thesis by simp
qed

end
